theory Spec2Isabelle
  imports Complex_Main "HOL-Library.AList"
begin

section \<open>Python values and the data model of \<^verbatim>\<open>proof_streaming.py\<close>\<close>

text \<open>
  Values decoded from JSON frames and the values of an event's \<^verbatim>\<open>data\<close> dictionary
  (\<^verbatim>\<open>Dict[str, Any]\<close>) are dynamically typed.  A float is modelled by its exact
  rational value (comparison of Python ints and floats is exact); NaN and the infinities
  are not represented.  A dictionary is an association list in insertion order.
\<close>

datatype pyval =
    PNone
  | PBool bool
  | PInt int
  | PFloat rat
  | PStr string
  | PList "pyval list"
  | PDict "(string \<times> pyval) list"

type_synonym pydict = "(string \<times> pyval) list"

datatype EventType =
    PROOF_SUBMITTED
  | VERIFICATION_COMPLETE
  | CHAIN_STEP_ADDED
  | STREAM_CREATED
  | AGENT_REGISTERED
  | TASK_DELEGATED
  | OPERAD_COMPLETED

record StreamEvent =
  event_type :: EventType
  stream_id :: pyval
  timestamp :: rat
  data :: pydict
  metadata :: "pydict option"

text \<open>
  \<^verbatim>\<open>StreamFilter\<close> carries the field types its dataclass declares; every field defaults
  to \<^verbatim>\<open>None\<close>.
\<close>

record StreamFilter =
  architectures :: "string list option"
  agents :: "string list option"
  event_types :: "EventType list option"
  quality_threshold :: "rat option"
  chain_id :: "string option"

text \<open>The exceptions raised by the modelled code.\<close>

datatype fault =
    JSONDecodeError
  | Not_a_mapping
  | Not_a_valid_EventType pyval
  | Stream_not_found pyval
  | Unhashable pyval
  | Unsupported_operand pyval
  | Bad_list_index pyval

subsection \<open>Python operators used by the server\<close>

definition dict_get :: "pydict \<Rightarrow> string \<Rightarrow> pyval" where
  \<comment> \<open>\<^verbatim>\<open>d.get(k)\<close>\<close>
  "dict_get d k = (case map_of d k of None \<Rightarrow> PNone | Some v \<Rightarrow> v)"

definition dict_get_default :: "pydict \<Rightarrow> string \<Rightarrow> pyval \<Rightarrow> pyval" where
  \<comment> \<open>\<^verbatim>\<open>d.get(k, default)\<close>\<close>
  "dict_get_default d k dflt = (case map_of d k of None \<Rightarrow> dflt | Some v \<Rightarrow> v)"

fun truthy :: "pyval \<Rightarrow> bool" where
  "truthy PNone = False"
| "truthy (PBool b) = b"
| "truthy (PInt i) = (i \<noteq> 0)"
| "truthy (PFloat r) = (r \<noteq> 0)"
| "truthy (PStr s) = (s \<noteq> [])"
| "truthy (PList xs) = (xs \<noteq> [])"
| "truthy (PDict kvs) = (kvs \<noteq> [])"

definition py_or :: "pyval \<Rightarrow> pyval \<Rightarrow> pyval" where
  \<comment> \<open>\<^verbatim>\<open>a or b\<close>\<close>
  "py_or a b = (if truthy a then a else b)"

fun py_in_strs :: "pyval \<Rightarrow> string list \<Rightarrow> bool" where
  \<comment> \<open>\<^verbatim>\<open>x in xs\<close> for a list of strings: only an equal string is a member\<close>
  "py_in_strs (PStr s) xs = (s \<in> set xs)"
| "py_in_strs v xs = False"

fun num_of :: "pyval \<Rightarrow> rat option" where
  \<comment> \<open>the numeric value of a bool, int or float operand\<close>
  "num_of (PBool b) = Some (if b then 1 else 0)"
| "num_of (PInt i) = Some (of_int i)"
| "num_of (PFloat r) = Some r"
| "num_of v = None"

definition py_lt :: "pyval \<Rightarrow> rat \<Rightarrow> fault + bool" where
  \<comment> \<open>\<^verbatim>\<open>x < t\<close> with a float on the right: TypeError unless \<open>x\<close> is a number\<close>
  "py_lt x t = (case num_of x of None \<Rightarrow> Inl (Unsupported_operand x) | Some q \<Rightarrow> Inr (q < t))"

definition elems :: "'a list option \<Rightarrow> 'a list" where
  \<comment> \<open>the items of an optional list or string; \<^verbatim>\<open>None\<close> and the empty one are both falsy\<close>
  "elems xs = (case xs of None \<Rightarrow> [] | Some ys \<Rightarrow> ys)"

section \<open>Filter matching\<close>

definition quality_below :: "StreamEvent \<Rightarrow> StreamFilter \<Rightarrow> fault + bool" where
  \<comment> \<open>the quality-threshold check of the loop body: \<open>Inr True\<close> is its \<^verbatim>\<open>continue\<close>\<close>
  "quality_below event f =
     (case quality_threshold f of
        None \<Rightarrow> Inr False
      | Some t \<Rightarrow>
          if t \<noteq> 0 then py_lt (dict_get_default (data event) ''quality_score'' (PInt 0)) t
          else Inr False)"

fun filters_loop :: "StreamEvent \<Rightarrow> StreamFilter list \<Rightarrow> fault + bool" where
  "filters_loop event [] = Inr False"
| "filters_loop event (f # fs) =
     (if elems (event_types f) \<noteq> [] \<and> event_type event \<notin> set (elems (event_types f))
      then filters_loop event fs
      else if elems (architectures f) \<noteq> []
            \<and> \<not> py_in_strs (dict_get (data event) ''architecture'') (elems (architectures f))
      then filters_loop event fs
      else if elems (agents f) \<noteq> []
            \<and> \<not> py_in_strs (py_or (dict_get (data event) ''agent'')
                                   (dict_get (data event) ''submitter'')) (elems (agents f))
      then filters_loop event fs
      else (case quality_below event f of
              Inl e \<Rightarrow> Inl e
            | Inr True \<Rightarrow> filters_loop event fs
            | Inr False \<Rightarrow>
                if elems (chain_id f) \<noteq> []
                   \<and> dict_get (data event) ''chain_id'' \<noteq> PStr (elems (chain_id f))
                then filters_loop event fs
                else Inr True))"

definition event_matches_filters :: "StreamEvent \<Rightarrow> StreamFilter list \<Rightarrow> fault + bool" where
  "event_matches_filters event filters =
     (if filters = [] then Inr True else filters_loop event filters)"

section \<open>The server\<close>

text \<open>
  The server runs on one event loop.  Each handler is modelled as one step from state to
  state, run to its end: what other tasks do while a handler waits in an \<^verbatim>\<open>await\<close> is not
  modelled.  A clock reading is an argument of the step that reads the clock.
\<close>

subsection \<open>Frames, replies and state\<close>

text \<open>
  A subscribe request's \<^verbatim>\<open>filter\<close> object, at the field types \<^verbatim>\<open>StreamFilter\<close> declares.
  The entries of \<^verbatim>\<open>event_types\<close> are raw JSON values until \<^verbatim>\<open>EventType(et)\<close> converts them;
  \<open>None\<close> stands for an absent key.
\<close>

record filter_data =
  fd_architectures :: "string list option"
  fd_agents :: "string list option"
  fd_event_types :: "pyval list option"
  fd_quality_threshold :: "rat option"
  fd_chain_id :: "string option"

text \<open>
  A decoded frame: the keys the handlers read.  A field read with \<^verbatim>\<open>data.get(k)\<close> is \<open>PNone\<close>
  when absent; a field read with a default is an option.
\<close>

record request =
  r_type :: pyval
  r_filter :: "filter_data option"
  r_subscription_id :: pyval
  r_stream_spec :: "pyval option"
  r_stream_id :: pyval
  r_proof_data :: pyval
  r_public_inputs :: pyval
  r_architecture :: "pyval option"

datatype frame =
    Undecodable
  | Not_an_object pyval
  | Object request

text \<open>The \<^verbatim>\<open>message\<close> text of an error reply: a literal, an f-string, or \<^verbatim>\<open>str(e)\<close>.\<close>

datatype errtext =
    Invalid_JSON_format
  | Unknown_message_type pyval
  | Str_of fault

text \<open>The messages the server sends; each constructor is one value of the \<^verbatim>\<open>type\<close> key.\<close>

datatype msg =
    Connection_established string nat
  | Pong rat
  | Error errtext
  | Subscription_confirmed StreamFilter nat
  | Subscription_error errtext
  | Unsubscription_confirmed pyval
  | All_subscriptions_cleared
  | Stream_created string pyval
  | Stream_creation_error errtext
  | Proof_submitted pyval
  | Proof_submission_error errtext
  | Stream_event StreamEvent rat

text \<open>
  \<^verbatim>\<open>json.dumps\<close> raises TypeError on a member of \<^verbatim>\<open>EventType\<close>, a plain \<^verbatim>\<open>Enum\<close>.
  \<^verbatim>\<open>asdict(event)\<close> always holds one (the event's type) and \<^verbatim>\<open>asdict(stream_filter)\<close>
  holds one for each entry of \<^verbatim>\<open>event_types\<close>; every other payload is built from
  strings, numbers and decoded JSON.
\<close>

fun json_dumps_ok :: "msg \<Rightarrow> bool" where
  "json_dumps_ok (Stream_event ev t) = False"
| "json_dumps_ok (Subscription_confirmed f i) = (elems (event_types f) = [])"
| "json_dumps_ok m = True"

text \<open>
  A transport: whether \<^verbatim>\<open>websocket.send\<close> succeeds on it.
\<close>

record websocket =
  ws_open :: bool

record Metrics =
  total_events :: nat
  events_per_second :: rat
  m_connected_clients :: nat
  m_active_streams :: nat

record stream =
  s_id :: string
  s_creator :: string
  s_spec :: pyval
  s_created_at :: rat
  event_count :: nat

text \<open>
  The state of a \<^verbatim>\<open>ProofStreamingServer\<close>.  The three dictionaries are association lists
  in insertion order (\<^verbatim>\<open>_emit_event\<close> iterates one of them).  \<open>sent\<close> is the trace of the
  frames written to transports, in order; it is not a field of the class.  No event handler
  is registered (\<^verbatim>\<open>add_event_handler\<close> has no caller), so \<^verbatim>\<open>event_handlers\<close> is left out,
  as is \<^verbatim>\<open>average_latency\<close>, which is never written.
\<close>

record server =
  connected_clients :: "(string \<times> websocket) list"
  client_subscriptions :: "(string \<times> StreamFilter list) list"
  active_streams :: "(string \<times> stream) list"
  metrics :: Metrics
  last_metrics_update :: rat
  events_since_last_update :: nat
  sent :: "(string \<times> msg) list"

text \<open>The result of code that may raise: the state reached, and the exception if any.\<close>

datatype outcome = Done server | Raised fault server

fun state_of :: "outcome \<Rightarrow> server" where
  "state_of (Done s) = s"
| "state_of (Raised e s) = s"

text \<open>
  The library functions behind a stream id and a fingerprint: \<^verbatim>\<open>hashlib.sha256(..).hexdigest()\<close>
  and \<^verbatim>\<open>str\<close>.
\<close>

record pylib =
  sha256_hexdigest :: "string \<Rightarrow> string"
  py_str :: "pyval \<Rightarrow> string"

definition init_server :: "rat \<Rightarrow> server" where
  \<comment> \<open>\<^verbatim>\<open>__init__\<close>, at clock reading \<open>now\<close>\<close>
  "init_server now =
     \<lparr>connected_clients = [], client_subscriptions = [], active_streams = [],
      metrics = \<lparr>total_events = 0, events_per_second = 0, m_connected_clients = 0,
                 m_active_streams = 0\<rparr>,
      last_metrics_update = now, events_since_last_update = 0, sent = []\<rparr>"

subsection \<open>Sending\<close>

definition send_to_client :: "string \<Rightarrow> msg \<Rightarrow> server \<Rightarrow> server" where
  "send_to_client client_id m s =
     (case map_of (connected_clients s) client_id of
        None \<Rightarrow> s
      | Some ws \<Rightarrow>
          if json_dumps_ok m \<and> ws_open ws
          then s\<lparr>sent := sent s @ [(client_id, m)]\<rparr>
          else s\<lparr>connected_clients := AList.delete client_id (connected_clients s)\<rparr>)"

subsection \<open>Broadcast\<close>

fun emit_loop :: "StreamEvent \<Rightarrow> msg \<Rightarrow> (string \<times> StreamFilter list) list \<Rightarrow> server \<Rightarrow> outcome" where
  \<comment> \<open>the loop over \<^verbatim>\<open>self.client_subscriptions.items()\<close>\<close>
  "emit_loop event event_data [] s = Done s"
| "emit_loop event event_data ((client_id, filters) # rest) s =
     (case event_matches_filters event filters of
        Inl e \<Rightarrow> Raised e s
      | Inr True \<Rightarrow> emit_loop event event_data rest (send_to_client client_id event_data s)
      | Inr False \<Rightarrow> emit_loop event event_data rest s)"

definition emit_event :: "StreamEvent \<Rightarrow> rat \<Rightarrow> server \<Rightarrow> outcome" where
  "emit_event event now s =
     emit_loop event (Stream_event event now) (client_subscriptions s)
       (s\<lparr>metrics := (metrics s)\<lparr>total_events := total_events (metrics s) + 1\<rparr>,
          events_since_last_update := events_since_last_update s + 1\<rparr>)"

subsection \<open>Connection lifecycle\<close>

definition handle_client_connect :: "string \<Rightarrow> websocket \<Rightarrow> server \<Rightarrow> server" where
  \<comment> \<open>\<^verbatim>\<open>_handle_client\<close> up to the message loop\<close>
  "handle_client_connect client_id ws s =
     (let cs = AList.update client_id ws (connected_clients s)
      in send_to_client client_id
           (Connection_established client_id (length (active_streams s)))
           (s\<lparr>connected_clients := cs,
              metrics := (metrics s)\<lparr>m_connected_clients := length cs\<rparr>\<rparr>))"

definition handle_client_cleanup :: "string \<Rightarrow> server \<Rightarrow> server" where
  \<comment> \<open>the \<^verbatim>\<open>finally\<close> block of \<^verbatim>\<open>_handle_client\<close>\<close>
  "handle_client_cleanup client_id s =
     (let cs = AList.delete client_id (connected_clients s)
      in s\<lparr>connected_clients := cs,
           client_subscriptions := AList.delete client_id (client_subscriptions s),
           metrics := (metrics s)\<lparr>m_connected_clients := length cs\<rparr>\<rparr>)"

subsection \<open>Subscriptions\<close>

fun EventType_of :: "pyval \<Rightarrow> fault + EventType" where
  \<comment> \<open>\<^verbatim>\<open>EventType(et)\<close>: lookup by value, ValueError otherwise\<close>
  "EventType_of (PStr v) =
     (if v = ''proof_submitted'' then Inr PROOF_SUBMITTED
      else if v = ''verification_complete'' then Inr VERIFICATION_COMPLETE
      else if v = ''chain_step_added'' then Inr CHAIN_STEP_ADDED
      else if v = ''stream_created'' then Inr STREAM_CREATED
      else if v = ''agent_registered'' then Inr AGENT_REGISTERED
      else if v = ''task_delegated'' then Inr TASK_DELEGATED
      else if v = ''operad_completed'' then Inr OPERAD_COMPLETED
      else Inl (Not_a_valid_EventType (PStr v)))"
| "EventType_of v = Inl (Not_a_valid_EventType v)"

fun EventType_list :: "pyval list \<Rightarrow> fault + EventType list" where
  \<comment> \<open>\<^verbatim>\<open>[EventType(et) for et in ...]\<close>: the first bad entry raises\<close>
  "EventType_list [] = Inr []"
| "EventType_list (et # ets) =
     (case EventType_of et of
        Inl e \<Rightarrow> Inl e
      | Inr k \<Rightarrow> (case EventType_list ets of Inl e \<Rightarrow> Inl e | Inr ks \<Rightarrow> Inr (k # ks)))"

definition no_filter_data :: filter_data where
  \<comment> \<open>the default \<^verbatim>\<open>{}\<close> of \<^verbatim>\<open>data.get("filter", {})\<close>\<close>
  "no_filter_data =
     \<lparr>fd_architectures = None, fd_agents = None, fd_event_types = None,
      fd_quality_threshold = None, fd_chain_id = None\<rparr>"

definition make_filter :: "filter_data \<Rightarrow> fault + StreamFilter" where
  \<comment> \<open>the \<^verbatim>\<open>StreamFilter(...)\<close> construction of \<^verbatim>\<open>_handle_subscription\<close>\<close>
  "make_filter fd =
     (case EventType_list (elems (fd_event_types fd)) of
        Inl e \<Rightarrow> Inl e
      | Inr ks \<Rightarrow>
          Inr \<lparr>architectures = fd_architectures fd, agents = fd_agents fd,
               event_types = Some ks, quality_threshold = fd_quality_threshold fd,
               chain_id = fd_chain_id fd\<rparr>)"

definition subscriptions_of :: "server \<Rightarrow> string \<Rightarrow> StreamFilter list" where
  \<comment> \<open>\<^verbatim>\<open>self.client_subscriptions[client_id]\<close> of the \<^verbatim>\<open>defaultdict(list)\<close>\<close>
  "subscriptions_of s client_id =
     (case map_of (client_subscriptions s) client_id of None \<Rightarrow> [] | Some fs \<Rightarrow> fs)"

definition set_subscriptions :: "string \<Rightarrow> StreamFilter list \<Rightarrow> server \<Rightarrow> server" where
  "set_subscriptions client_id fs s =
     s\<lparr>client_subscriptions := AList.update client_id fs (client_subscriptions s)\<rparr>"

definition handle_subscription :: "string \<Rightarrow> request \<Rightarrow> server \<Rightarrow> server" where
  "handle_subscription client_id req s =
     (case make_filter (case r_filter req of None \<Rightarrow> no_filter_data | Some fd \<Rightarrow> fd) of
        Inl e \<Rightarrow> send_to_client client_id (Subscription_error (Str_of e)) s
      | Inr stream_filter \<Rightarrow>
          (let s1 = set_subscriptions client_id (subscriptions_of s client_id @ [stream_filter]) s
           in send_to_client client_id
                (Subscription_confirmed stream_filter (length (subscriptions_of s1 client_id) - 1))
                s1))"

definition index_in_range :: "pyval \<Rightarrow> nat \<Rightarrow> fault + bool" where
  \<comment> \<open>\<^verbatim>\<open>subscription_id is not None and 0 <= subscription_id < len(...)\<close>\<close>
  "index_in_range subscription_id n =
     (if subscription_id = PNone then Inr False
      else case num_of subscription_id of
             None \<Rightarrow> Inl (Unsupported_operand subscription_id)
           | Some q \<Rightarrow> Inr (0 \<le> q \<and> q < of_nat n))"

fun list_index :: "pyval \<Rightarrow> fault + nat" where
  \<comment> \<open>the position \<^verbatim>\<open>del xs[i]\<close> addresses, for \<open>i\<close> already known to be at least 0\<close>
  "list_index (PInt i) = Inr (nat i)"
| "list_index (PBool b) = Inr (if b then 1 else 0)"
| "list_index v = Inl (Bad_list_index v)"

definition handle_unsubscription :: "string \<Rightarrow> request \<Rightarrow> server \<Rightarrow> outcome" where
  "handle_unsubscription client_id req s =
     (let subscription_id = r_subscription_id req
      in case map_of (client_subscriptions s) client_id of
           None \<Rightarrow> Done s
         | Some fs \<Rightarrow>
             (case index_in_range subscription_id (length fs) of
                Inl e \<Rightarrow> Raised e s
              | Inr True \<Rightarrow>
                  (case list_index subscription_id of
                     Inl e \<Rightarrow> Raised e s
                   | Inr i \<Rightarrow>
                       Done (send_to_client client_id (Unsubscription_confirmed subscription_id)
                               (set_subscriptions client_id (take i fs @ drop (Suc i) fs) s)))
              | Inr False \<Rightarrow>
                  Done (send_to_client client_id All_subscriptions_cleared
                          (set_subscriptions client_id [] s))))"

subsection \<open>Streams\<close>

definition new_stream_id :: "pylib \<Rightarrow> string \<Rightarrow> pyval \<Rightarrow> rat \<Rightarrow> string" where
  \<comment> \<open>\<^verbatim>\<open>hashlib.sha256(f"{client_id}_{stream_spec}_{time.time()}".encode()).hexdigest()\<close>\<close>
  "new_stream_id L client_id stream_spec now =
     sha256_hexdigest L (client_id @ ''_'' @ py_str L stream_spec @ ''_'' @ py_str L (PFloat now))"

definition requested_spec :: "request \<Rightarrow> pyval" where
  \<comment> \<open>\<^verbatim>\<open>data.get("stream_spec", {})\<close>\<close>
  "requested_spec req = (case r_stream_spec req of None \<Rightarrow> PDict [] | Some v \<Rightarrow> v)"

definition stream_created_event :: "string \<Rightarrow> string \<Rightarrow> pyval \<Rightarrow> rat \<Rightarrow> StreamEvent" where
  "stream_created_event sid client_id stream_spec now =
     \<lparr>event_type = STREAM_CREATED, stream_id = PStr sid, timestamp = now,
      data = [(''creator'', PStr client_id), (''spec'', stream_spec)], metadata = None\<rparr>"

text \<open>
  One clock reading per handler call stands for the readings \<^verbatim>\<open>time.time()\<close> returns inside
  it.  The \<^verbatim>\<open>subscribers\<close> list of a stream record is never read or written again and is
  left out.
\<close>

definition handle_create_stream :: "pylib \<Rightarrow> string \<Rightarrow> request \<Rightarrow> rat \<Rightarrow> server \<Rightarrow> server" where
  "handle_create_stream L client_id req now s =
     (let stream_spec = requested_spec req;
          sid = new_stream_id L client_id stream_spec now;
          streams = AList.update sid
                      \<lparr>s_id = sid, s_creator = client_id, s_spec = stream_spec,
                       s_created_at = now, event_count = 0\<rparr> (active_streams s);
          s1 = s\<lparr>active_streams := streams,
                 metrics := (metrics s)\<lparr>m_active_streams := length streams\<rparr>\<rparr>;
          s2 = send_to_client client_id (Stream_created sid stream_spec) s1
      in case emit_event (stream_created_event sid client_id stream_spec now) now s2 of
           Done s3 \<Rightarrow> s3
         | Raised e s3 \<Rightarrow> send_to_client client_id (Stream_creation_error (Str_of e)) s3)"

fun stream_key :: "pyval \<Rightarrow> (string \<times> stream) list \<Rightarrow> fault + string" where
  \<comment> \<open>\<^verbatim>\<open>if stream_id not in self.active_streams: raise ValueError(...)\<close>; the keys are strings\<close>
  "stream_key (PStr k) streams =
     (if map_of streams k = None then Inl (Stream_not_found (PStr k)) else Inr k)"
| "stream_key (PList xs) streams = Inl (Unhashable (PList xs))"
| "stream_key (PDict kvs) streams = Inl (Unhashable (PDict kvs))"
| "stream_key v streams = Inl (Stream_not_found v)"

definition proof_submitted_event :: "pylib \<Rightarrow> string \<Rightarrow> request \<Rightarrow> rat \<Rightarrow> StreamEvent" where
  "proof_submitted_event L client_id req now =
     \<lparr>event_type = PROOF_SUBMITTED, stream_id = r_stream_id req, timestamp = now,
      data = [(''submitter'', PStr client_id),
              (''proof_hash'', PStr (take 16 (sha256_hexdigest L (py_str L (r_proof_data req))))),
              (''input_hash'', PStr (take 16 (sha256_hexdigest L (py_str L (r_public_inputs req))))),
              (''architecture'',
                 (case r_architecture req of None \<Rightarrow> PStr ''unknown'' | Some a \<Rightarrow> a))],
      metadata = None\<rparr>"

definition count_event :: "string \<Rightarrow> server \<Rightarrow> server" where
  \<comment> \<open>\<^verbatim>\<open>self.active_streams[stream_id]["event_count"] += 1\<close>\<close>
  "count_event k s =
     s\<lparr>active_streams :=
         AList.map_entry k (\<lambda>st. st\<lparr>event_count := event_count st + 1\<rparr>) (active_streams s)\<rparr>"

definition handle_proof_submission :: "pylib \<Rightarrow> string \<Rightarrow> request \<Rightarrow> rat \<Rightarrow> server \<Rightarrow> server" where
  "handle_proof_submission L client_id req now s =
     (case stream_key (r_stream_id req) (active_streams s) of
        Inl e \<Rightarrow> send_to_client client_id (Proof_submission_error (Str_of e)) s
      | Inr k \<Rightarrow>
          (case emit_event (proof_submitted_event L client_id req now) now s of
             Raised e s1 \<Rightarrow> send_to_client client_id (Proof_submission_error (Str_of e)) s1
           | Done s1 \<Rightarrow>
               send_to_client client_id (Proof_submitted (r_stream_id req)) (count_event k s1)))"

subsection \<open>Dispatch\<close>

definition dispatch :: "pylib \<Rightarrow> string \<Rightarrow> frame \<Rightarrow> rat \<Rightarrow> server \<Rightarrow> outcome" where
  \<comment> \<open>the \<^verbatim>\<open>try\<close> block of \<^verbatim>\<open>_handle_client_message\<close>\<close>
  "dispatch L client_id fr now s =
     (case fr of
        Undecodable \<Rightarrow> Raised JSONDecodeError s
      | Not_an_object v \<Rightarrow> Raised Not_a_mapping s
      | Object req \<Rightarrow>
          (let msg_type = r_type req
           in if msg_type = PStr ''subscribe'' then Done (handle_subscription client_id req s)
              else if msg_type = PStr ''unsubscribe'' then handle_unsubscription client_id req s
              else if msg_type = PStr ''create_stream''
                then Done (handle_create_stream L client_id req now s)
              else if msg_type = PStr ''submit_proof''
                then Done (handle_proof_submission L client_id req now s)
              else if msg_type = PStr ''ping'' then Done (send_to_client client_id (Pong now) s)
              else Done (send_to_client client_id (Error (Unknown_message_type msg_type)) s)))"

fun catch_all :: "string \<Rightarrow> outcome \<Rightarrow> outcome" where
  \<comment> \<open>the two \<^verbatim>\<open>except\<close> clauses of \<^verbatim>\<open>_handle_client_message\<close>\<close>
  "catch_all client_id (Done s) = Done s"
| "catch_all client_id (Raised JSONDecodeError s) =
     Done (send_to_client client_id (Error Invalid_JSON_format) s)"
| "catch_all client_id (Raised e s) = Done (send_to_client client_id (Error (Str_of e)) s)"

definition handle_client_message :: "pylib \<Rightarrow> string \<Rightarrow> frame \<Rightarrow> rat \<Rightarrow> server \<Rightarrow> outcome" where
  "handle_client_message L client_id fr now s = catch_all client_id (dispatch L client_id fr now s)"

subsection \<open>Metrics\<close>

definition update_metrics_tick :: "rat \<Rightarrow> server \<Rightarrow> server" where
  \<comment> \<open>one round of \<^verbatim>\<open>_update_metrics_loop\<close> after its sleep, at clock reading \<open>current_time\<close>\<close>
  "update_metrics_tick current_time s =
     (let time_delta = current_time - last_metrics_update s;
          m = (if time_delta > 0
               then (metrics s)\<lparr>events_per_second :=
                                  of_nat (events_since_last_update s) / time_delta\<rparr>
               else metrics s)
      in s\<lparr>metrics := m, last_metrics_update := current_time, events_since_last_update := 0\<rparr>)"

section \<open>The matching rule in the specification's words\<close>


definition quality_score :: "StreamEvent \<Rightarrow> pyval" where
  \<comment> \<open>\<^verbatim>\<open>event.data.quality_score\<close>, 0 when absent\<close>
  "quality_score E = dict_get_default (data E) ''quality_score'' (PInt 0)"

definition quality_at_least_spec :: "StreamEvent \<Rightarrow> rat \<Rightarrow> bool" where
  "quality_at_least_spec E t = (case num_of (quality_score E) of None \<Rightarrow> False | Some q \<Rightarrow> t \<le> q)"



definition match_all_filter :: StreamFilter where
  \<comment> \<open>the filter a subscribe request with \<^verbatim>\<open>{}\<close> stores\<close>
  "match_all_filter =
     \<lparr>architectures = None, agents = None, event_types = Some [], quality_threshold = None,
      chain_id = None\<rparr>"

definition event_with_data :: "pydict \<Rightarrow> StreamEvent" where
  \<comment> \<open>an event as \<^verbatim>\<open>broadcast_verification_complete\<close> builds it, with the given \<^verbatim>\<open>data\<close>\<close>
  "event_with_data d =
     \<lparr>event_type = VERIFICATION_COMPLETE, stream_id = PStr ''global'', timestamp = 0,
      data = d, metadata = None\<rparr>"

subsection \<open>Observations and sample inputs\<close>

definition frames_to :: "server \<Rightarrow> string \<Rightarrow> msg list" where
  \<comment> \<open>the frames written to one client's transport so far\<close>
  "frames_to s client_id = map snd (filter (\<lambda>p. fst p = client_id) (sent s))"

definition has_open_transport :: "server \<Rightarrow> string \<Rightarrow> bool" where
  \<comment> \<open>the client is in the connection table and a send on its transport succeeds\<close>
  "has_open_transport s client_id =
     (case map_of (connected_clients s) client_id of None \<Rightarrow> False | Some ws \<Rightarrow> ws_open ws)"

definition transport_fails :: "string \<Rightarrow> server \<Rightarrow> server" where
  \<comment> \<open>the environment: a client's transport breaks, so that later sends on it raise\<close>
  "transport_fails client_id s =
     s\<lparr>connected_clients :=
         AList.map_entry client_id (\<lambda>ws. ws\<lparr>ws_open := False\<rparr>) (connected_clients s)\<rparr>"

definition request_of_type :: "string \<Rightarrow> request" where
  \<comment> \<open>the frame \<^verbatim>\<open>{"type": t}\<close>, every other key absent\<close>
  "request_of_type t =
     \<lparr>r_type = PStr t, r_filter = None, r_subscription_id = PNone, r_stream_spec = None,
      r_stream_id = PNone, r_proof_data = PNone, r_public_inputs = PNone,
      r_architecture = None\<rparr>"

definition plain_lib :: pylib where
  \<comment> \<open>a library for closed examples: the digest is the identity function, hence free of
      collisions, and \<^verbatim>\<open>str\<close> renders strings only\<close>
  "plain_lib =
     \<lparr>sha256_hexdigest = (\<lambda>x. x), py_str = (\<lambda>v. case v of PStr x \<Rightarrow> x | _ \<Rightarrow> [])\<rparr>"

definition chain_filter :: "string \<Rightarrow> StreamFilter" where
  \<comment> \<open>the filter stored for \<^verbatim>\<open>{"chain_id": x}\<close>\<close>
  "chain_filter x = match_all_filter\<lparr>chain_id := Some x\<rparr>"

definition three_filters_state :: server where
  \<comment> \<open>one connected client \<^verbatim>\<open>c\<close> holding the three filters it subscribed with, the trace
      of earlier frames left empty\<close>
  "three_filters_state =
     (init_server 0)
       \<lparr>connected_clients := [(''c'', \<lparr>ws_open = True\<rparr>)],
        client_subscriptions :=
          [(''c'', [chain_filter ''a'', chain_filter ''b'', chain_filter ''c''])]\<rparr>"

definition subscribe_request :: "filter_data \<Rightarrow> request" where
  \<comment> \<open>the frame \<^verbatim>\<open>{"type": "subscribe", "filter": fd}\<close>\<close>
  "subscribe_request fd = (request_of_type ''subscribe'')\<lparr>r_filter := Some fd\<rparr>"


definition emit_plain_event :: "rat \<Rightarrow> server \<Rightarrow> server" where
  \<comment> \<open>one call of \<^verbatim>\<open>_emit_event\<close> with an event without data, at clock reading \<open>now\<close>\<close>
  "emit_plain_event now s = state_of (emit_event (event_with_data []) now s)"

definition create_stream_request :: request where
  \<comment> \<open>the frame \<^verbatim>\<open>{"type": "create_stream", "stream_spec": {}}\<close>\<close>
  "create_stream_request = (request_of_type ''create_stream'')\<lparr>r_stream_spec := Some (PDict [])\<rparr>"


definition dead_subscriber_state :: server where
  \<comment> \<open>client \<^verbatim>\<open>a\<close> connected and subscribed with \<^verbatim>\<open>{}\<close>; then its transport broke\<close>
  "dead_subscriber_state =
     transport_fails ''a''
       (handle_subscription ''a'' (subscribe_request no_filter_data)
          (handle_client_connect ''a'' \<lparr>ws_open = True\<rparr> (init_server 0)))"

definition subscribed_creator_state :: server where
  \<comment> \<open>client \<^verbatim>\<open>c\<close> connected, created a stream (id \<^verbatim>\<open>c__\<close> under \<open>plain_lib\<close>) and then
      subscribed with \<^verbatim>\<open>{}\<close>\<close>
  "subscribed_creator_state =
     handle_subscription ''c'' (subscribe_request no_filter_data)
       (handle_create_stream plain_lib ''c'' create_stream_request 1
          (handle_client_connect ''c'' \<lparr>ws_open = True\<rparr> (init_server 0)))"

definition submit_proof_request :: "string \<Rightarrow> request" where
  \<comment> \<open>a \<^verbatim>\<open>submit_proof\<close> frame for the given stream id\<close>
  "submit_proof_request sid =
     (request_of_type ''submit_proof'')
       \<lparr>r_stream_id := PStr sid, r_proof_data := PStr ''proof'',
        r_public_inputs := PList [PInt 1, PInt 2], r_architecture := Some (PStr ''RWKV'')\<rparr>"

section \<open>Verification\<close>

subsection \<open>Filter matching\<close>








text \<open>
  Claim C7 at the threshold 0.  The test \<^verbatim>\<open>if f.quality_threshold:\<close> is false for 0 as it is
  for \<^verbatim>\<open>None\<close>, so an event of quality -1 matches a filter whose threshold is set to 0,
  although -1 is below 0; with any other threshold above -1 the same event is rejected.
\<close>

theorem zero_threshold_ignored:
  "event_matches_filters (event_with_data [(''quality_score'', PInt (- 1))])
     [match_all_filter\<lparr>quality_threshold := Some 0\<rparr>] = Inr True
   \<and> \<not> quality_at_least_spec (event_with_data [(''quality_score'', PInt (- 1))]) 0
   \<and> event_matches_filters (event_with_data [(''quality_score'', PInt (- 1))])
     [match_all_filter\<lparr>quality_threshold := Some (1/1000)\<rparr>] = Inr False"
  by (simp add: event_with_data_def match_all_filter_def event_matches_filters_def
        quality_below_def py_lt_def dict_get_default_def elems_def quality_at_least_spec_def
        quality_score_def)

subsection \<open>Sending and broadcast\<close>

lemma send_to_client_frame [simp]:
  "client_subscriptions (send_to_client c m s) = client_subscriptions s"
  "active_streams (send_to_client c m s) = active_streams s"
  "metrics (send_to_client c m s) = metrics s"
  "last_metrics_update (send_to_client c m s) = last_metrics_update s"
  "events_since_last_update (send_to_client c m s) = events_since_last_update s"
  by (simp_all add: send_to_client_def split: option.splits)


lemma send_to_client_delivers:
  assumes "has_open_transport s c" and "json_dumps_ok m"
  shows "send_to_client c m s = s\<lparr>sent := sent s @ [(c, m)]\<rparr>"
  using assms
  by (simp add: send_to_client_def has_open_transport_def split: option.splits)

lemma send_to_client_absent:
  "map_of (connected_clients s) c = None \<Longrightarrow> send_to_client c m s = s"
  by (simp add: send_to_client_def)

lemma emit_loop_frame [simp]:
  "client_subscriptions (state_of (emit_loop ev m subs s)) = client_subscriptions s"
  "active_streams (state_of (emit_loop ev m subs s)) = active_streams s"
  "metrics (state_of (emit_loop ev m subs s)) = metrics s"
  "last_metrics_update (state_of (emit_loop ev m subs s)) = last_metrics_update s"
  "events_since_last_update (state_of (emit_loop ev m subs s)) = events_since_last_update s"
  by (induction ev m subs s rule: emit_loop.induct; simp split: sum.splits bool.splits)+


lemma emit_event_counts:
  "total_events (metrics (state_of (emit_event ev now s))) = total_events (metrics s) + 1"
  "events_since_last_update (state_of (emit_event ev now s)) = events_since_last_update s + 1"
  "client_subscriptions (state_of (emit_event ev now s)) = client_subscriptions s"
  "active_streams (state_of (emit_event ev now s)) = active_streams s"
  by (simp_all add: emit_event_def)


subsection \<open>Who receives an event\<close>




lemma handle_create_stream_subscriptions [simp]:
  "client_subscriptions (handle_create_stream L c req now s) = client_subscriptions s"
proof -
  have *: "client_subscriptions (case oc of Done s3 \<Rightarrow> s3 | Raised e s3 \<Rightarrow> send_to_client c (m e) s3)
        = client_subscriptions (state_of oc)" for oc m
    by (cases oc) simp_all
  show ?thesis
    by (simp add: handle_create_stream_def requested_spec_def Let_def * emit_event_counts)
qed

lemma handle_proof_submission_subscriptions [simp]:
  "client_subscriptions (handle_proof_submission L c req now s) = client_subscriptions s"
proof (cases "stream_key (r_stream_id req) (active_streams s)")
  case (Inl e)
  then show ?thesis by (simp add: handle_proof_submission_def)
next
  case (Inr k)
  show ?thesis
  proof (cases "emit_event (proof_submitted_event L c req now) now s")
    case (Done s1)
    with emit_event_counts(3) [of "proof_submitted_event L c req now" now s] Inr
    show ?thesis by (simp add: handle_proof_submission_def count_event_def)
  next
    case (Raised e s1)
    with emit_event_counts(3) [of "proof_submitted_event L c req now" now s] Inr
    show ?thesis by (simp add: handle_proof_submission_def)
  qed
qed

lemma catch_all_subscriptions [simp]:
  "client_subscriptions (state_of (catch_all c oc)) = client_subscriptions (state_of oc)"
proof (cases oc)
  case (Done s)
  then show ?thesis by simp
next
  case (Raised e s)
  then show ?thesis by (cases e) simp_all
qed


lemma handle_client_connect_subscriptions [simp]:
  "client_subscriptions (handle_client_connect x ws s) = client_subscriptions s"
  by (simp add: handle_client_connect_def Let_def)




subsection \<open>The subscription registry\<close>

lemma subscriptions_of_send [simp]:
  "subscriptions_of (send_to_client c m s) x = subscriptions_of s x"
  by (simp add: subscriptions_of_def)

lemma subscriptions_of_set:
  "subscriptions_of (set_subscriptions c fs s) x = (if x = c then fs else subscriptions_of s x)"
  by (simp add: subscriptions_of_def set_subscriptions_def update_conv')

lemma set_subscriptions_frame [simp]:
  "connected_clients (set_subscriptions c fs s) = connected_clients s"
  "sent (set_subscriptions c fs s) = sent s"
  "active_streams (set_subscriptions c fs s) = active_streams s"
  "metrics (set_subscriptions c fs s) = metrics s"
  by (simp_all add: set_subscriptions_def)

lemma has_open_transport_set_subscriptions [simp]:
  "has_open_transport (set_subscriptions c fs s) x = has_open_transport s x"
  by (simp add: has_open_transport_def)

lemma sent_after_reply:
  assumes "has_open_transport s c" and "json_dumps_ok m"
  shows "sent (send_to_client c m s) = sent s @ [(c, m)]"
    and "has_open_transport (send_to_client c m s) c"
  using assms by (simp_all add: send_to_client_delivers has_open_transport_def)

lemma handle_subscription_ok:
  assumes "make_filter (case r_filter req of None \<Rightarrow> no_filter_data | Some fd \<Rightarrow> fd) = Inr f"
  shows "handle_subscription c req s =
           send_to_client c (Subscription_confirmed f (length (subscriptions_of s c)))
             (set_subscriptions c (subscriptions_of s c @ [f]) s)"
  using assms by (simp add: handle_subscription_def Let_def subscriptions_of_set)

lemma handle_subscription_failed:
  assumes "make_filter (case r_filter req of None \<Rightarrow> no_filter_data | Some fd \<Rightarrow> fd) = Inl e"
  shows "handle_subscription c req s = send_to_client c (Subscription_error (Str_of e)) s"
  using assms by (simp add: handle_subscription_def)







text \<open>
  Claim C10.  When the construction of the filter raises (an entry of \<^verbatim>\<open>event_types\<close> that
  is not an event kind), the registry is exactly as before, the client is sent
  \<^verbatim>\<open>subscription_error\<close>, and the next successful subscribe is confirmed under the index it
  would have had without the failed request.
\<close>

theorem failed_subscription_changes_nothing:
  assumes "make_filter (case r_filter req of None \<Rightarrow> no_filter_data | Some fd \<Rightarrow> fd) = Inl e"
  shows "client_subscriptions (handle_subscription c req s) = client_subscriptions s
       \<and> (has_open_transport s c \<longrightarrow>
            sent (handle_subscription c req s) = sent s @ [(c, Subscription_error (Str_of e))])
       \<and> (\<forall>req' f.
            make_filter (case r_filter req' of None \<Rightarrow> no_filter_data | Some fd \<Rightarrow> fd) = Inr f \<longrightarrow>
            handle_subscription c req' (handle_subscription c req s) =
              send_to_client c (Subscription_confirmed f (length (subscriptions_of s c)))
                (set_subscriptions c (subscriptions_of s c @ [f]) (handle_subscription c req s)))"
  using assms
  by (simp add: handle_subscription_failed handle_subscription_ok sent_after_reply)

text \<open>
  Witness for C10: the second entry of \<^verbatim>\<open>event_types\<close> is not an event kind.
\<close>

theorem failed_subscription_changes_nothing_witness:
  "client_subscriptions
     (handle_subscription ''c''
        (subscribe_request (no_filter_data\<lparr>fd_event_types :=
           Some [PStr ''proof_submitted'', PStr ''bogus'']\<rparr>)) three_filters_state)
     = [(''c'', [chain_filter ''a'', chain_filter ''b'', chain_filter ''c''])]
   \<and> sent
     (handle_subscription ''c''
        (subscribe_request (no_filter_data\<lparr>fd_event_types :=
           Some [PStr ''proof_submitted'', PStr ''bogus'']\<rparr>)) three_filters_state)
     = [(''c'', Subscription_error (Str_of (Not_a_valid_EventType (PStr ''bogus''))))]
   \<and> handle_subscription ''c'' (subscribe_request no_filter_data)
       (handle_subscription ''c''
        (subscribe_request (no_filter_data\<lparr>fd_event_types :=
           Some [PStr ''proof_submitted'', PStr ''bogus'']\<rparr>)) three_filters_state)
     = send_to_client ''c'' (Subscription_confirmed match_all_filter 3)
         (set_subscriptions ''c''
            [chain_filter ''a'', chain_filter ''b'', chain_filter ''c'', match_all_filter]
            (handle_subscription ''c''
               (subscribe_request (no_filter_data\<lparr>fd_event_types :=
                  Some [PStr ''proof_submitted'', PStr ''bogus'']\<rparr>)) three_filters_state))"
proof -
  let ?bad = "subscribe_request (no_filter_data\<lparr>fd_event_types :=
           Some [PStr ''proof_submitted'', PStr ''bogus'']\<rparr>)"
  have bad: "make_filter (case r_filter ?bad of None \<Rightarrow> no_filter_data | Some fd \<Rightarrow> fd)
               = Inl (Not_a_valid_EventType (PStr ''bogus''))"
    by (simp add: subscribe_request_def request_of_type_def make_filter_def no_filter_data_def
          elems_def)
  have good: "make_filter (case r_filter (subscribe_request no_filter_data) of
                None \<Rightarrow> no_filter_data | Some fd \<Rightarrow> fd) = Inr match_all_filter"
    by (simp add: subscribe_request_def request_of_type_def make_filter_def no_filter_data_def
          match_all_filter_def elems_def)
  have st: "client_subscriptions three_filters_state
              = [(''c'', [chain_filter ''a'', chain_filter ''b'', chain_filter ''c''])]"
    "has_open_transport three_filters_state ''c''" "sent three_filters_state = []"
    "subscriptions_of three_filters_state ''c''
       = [chain_filter ''a'', chain_filter ''b'', chain_filter ''c'']"
    by (simp_all add: three_filters_state_def init_server_def has_open_transport_def
          subscriptions_of_def)
  show ?thesis
    using failed_subscription_changes_nothing [OF bad, of "''c''" three_filters_state] st good
    by (simp add: numeral_3_eq_3)
qed

subsection \<open>Metrics\<close>

text \<open>
  Claim C9, as amended.  A tick at a clock reading later than the previous one sets
  \<^verbatim>\<open>events_per_second\<close> to the events counted since that tick divided by the elapsed time
  (10 events over 5 time units give 2); a tick at a reading that is not later leaves
  \<^verbatim>\<open>events_per_second\<close> as it was.  Every tick resets the counter and records its reading.
  Every call of \<open>emit_event\<close>, whether or not it raises, adds exactly one to the counter and
  to \<^verbatim>\<open>total_events\<close>.  Division is exact here; the code divides floats.
\<close>

theorem metrics_tick_rate:
  "(last_metrics_update s < now \<longrightarrow>
      events_per_second (metrics (update_metrics_tick now s))
        = of_nat (events_since_last_update s) / (now - last_metrics_update s))
   \<and> (now \<le> last_metrics_update s \<longrightarrow>
      events_per_second (metrics (update_metrics_tick now s)) = events_per_second (metrics s))
   \<and> events_since_last_update (update_metrics_tick now s) = 0
   \<and> last_metrics_update (update_metrics_tick now s) = now
   \<and> (events_since_last_update s = 10 \<longrightarrow> now - last_metrics_update s = 5 \<longrightarrow>
      events_per_second (metrics (update_metrics_tick now s)) = 2)
   \<and> events_since_last_update (state_of (emit_event ev t s)) = events_since_last_update s + 1
   \<and> total_events (metrics (state_of (emit_event ev t s))) = total_events (metrics s) + 1"
  by (simp add: update_metrics_tick_def Let_def emit_event_counts)

lemma emit_plain_event_counts:
  "events_since_last_update ((emit_plain_event t ^^ n) s) = events_since_last_update s + n"
  "last_metrics_update ((emit_plain_event t ^^ n) s) = last_metrics_update s"
  "events_per_second (metrics ((emit_plain_event t ^^ n) s)) = events_per_second (metrics s)"
  by (induction n) (simp_all add: emit_plain_event_def emit_event_counts emit_event_def)

text \<open>
  Witness for C9: ten events emitted after the start at time 0, and a tick at time 5.
\<close>

theorem metrics_tick_rate_witness:
  "events_per_second (metrics (update_metrics_tick 5 ((emit_plain_event 1 ^^ 10) (init_server 0)))) = 2
   \<and> events_since_last_update (update_metrics_tick 5 ((emit_plain_event 1 ^^ 10) (init_server 0))) = 0"
  using metrics_tick_rate [of "(emit_plain_event 1 ^^ 10) (init_server 0)" 5]
  by (simp add: emit_plain_event_counts init_server_def)

text \<open>
  Counterexample to C9 as stated: \<^verbatim>\<open>time.time()\<close> is the wall clock; when it reads 3 at a
  tick after reading 8 at the start, the guard \<^verbatim>\<open>if time_delta > 0\<close> skips the assignment
  and \<^verbatim>\<open>events_per_second\<close> is not the quotient of the ten events by the elapsed time.
\<close>

theorem backward_clock_tick_counterexample:
  "events_per_second (metrics (update_metrics_tick 3 ((emit_plain_event 8 ^^ 10) (init_server 8))))
     \<noteq> of_nat (events_since_last_update ((emit_plain_event 8 ^^ 10) (init_server 8)))
         / (3 - last_metrics_update ((emit_plain_event 8 ^^ 10) (init_server 8)))"
  by (simp add: update_metrics_tick_def Let_def emit_plain_event_counts init_server_def)

subsection \<open>Stream ids\<close>












subsection \<open>Faults in inbound frames\<close>







subsection \<open>Teardown after a send failure\<close>

text \<open>
  Claim C6 at a failing input.  Client \<^verbatim>\<open>a\<close> has subscribed and its transport then breaks.
  The next send to it, the pong for a ping already received or an event, fails:
  \<open>send_to_client\<close> deletes \<^verbatim>\<open>a\<close> from the connection table only, and its entry in the
  subscription registry stays, where later broadcasts still find it.  The teardown of a
  transport close, \<open>handle_client_cleanup\<close>, deletes both.
\<close>

theorem send_failure_half_removes:
  "has_open_transport
     (handle_subscription ''a'' (subscribe_request no_filter_data)
        (handle_client_connect ''a'' \<lparr>ws_open = True\<rparr> (init_server 0))) ''a''
   \<and> map_of (connected_clients
        (state_of (handle_client_message plain_lib ''a'' (Object (request_of_type ''ping'')) 1
                     dead_subscriber_state))) ''a'' = None
   \<and> map_of (client_subscriptions
        (state_of (handle_client_message plain_lib ''a'' (Object (request_of_type ''ping'')) 1
                     dead_subscriber_state))) ''a'' = Some [match_all_filter]
   \<and> map_of (connected_clients (emit_plain_event 1 dead_subscriber_state)) ''a'' = None
   \<and> map_of (client_subscriptions (emit_plain_event 1 dead_subscriber_state)) ''a''
       = Some [match_all_filter]
   \<and> map_of (connected_clients (handle_client_cleanup ''a'' dead_subscriber_state)) ''a'' = None
   \<and> map_of (client_subscriptions (handle_client_cleanup ''a'' dead_subscriber_state)) ''a'' = None"
  by (simp add: emit_plain_event_def emit_event_def dead_subscriber_state_def
        transport_fails_def handle_subscription_def subscribe_request_def request_of_type_def
        make_filter_def no_filter_data_def elems_def set_subscriptions_def subscriptions_of_def
        handle_client_connect_def init_server_def send_to_client_def Let_def
        handle_client_cleanup_def event_matches_filters_def quality_below_def
        match_all_filter_def event_with_data_def handle_client_message_def dispatch_def
        has_open_transport_def)

subsection \<open>Proof submission\<close>

lemma quality_below_returns:
  "num_of (quality_score E) \<noteq> None \<Longrightarrow> quality_below E F \<noteq> Inl e"
  by (auto simp: quality_below_def py_lt_def quality_score_def split: option.splits)

lemma filters_loop_returns:
  assumes "num_of (quality_score E) \<noteq> None"
  shows "filters_loop E FS \<noteq> Inl e"
proof (induction FS)
  case Nil
  then show ?case by simp
next
  case (Cons F FS)
  with quality_below_returns [OF assms, of F e] show ?case
    by (auto split: sum.splits bool.splits)
qed

lemma event_matches_filters_returns:
  "num_of (quality_score E) \<noteq> None \<Longrightarrow> event_matches_filters E FS \<noteq> Inl e"
  using filters_loop_returns [of E FS] by (simp add: event_matches_filters_def)

lemma emit_loop_returns:
  "num_of (quality_score E) \<noteq> None \<Longrightarrow> \<exists>s'. emit_loop E m subs s = Done s'"
proof (induction E m subs s rule: emit_loop.induct)
  case (1 event event_data s)
  then show ?case by simp
next
  case (2 event event_data client_id filters rest s)
  show ?case
  proof (cases "event_matches_filters event filters")
    case (Inl e)
    with event_matches_filters_returns [OF "2.prems"] show ?thesis by blast
  next
    case (Inr b)
    with 2 show ?thesis by (cases b) simp_all
  qed
qed

lemma proof_submitted_event_returns:
  "\<exists>s'. emit_event (proof_submitted_event L c req now) now s = Done s'"
proof -
  have "num_of (quality_score (proof_submitted_event L c req now)) \<noteq> None"
    by (simp add: quality_score_def proof_submitted_event_def dict_get_default_def)
  then show ?thesis
    unfolding emit_event_def by (rule emit_loop_returns)
qed

text \<open>
  What holds of every submission: an unregistered stream id leads to the error reply and
  nothing else; a registered one to one emitted event, which never raises, and one more
  counted event on that stream.
\<close>

lemma proof_submission_unregistered:
  assumes "stream_key (r_stream_id req) (active_streams s) = Inl e"
  shows "handle_proof_submission L c req now s
           = send_to_client c (Proof_submission_error (Str_of e)) s"
  using assms by (simp add: handle_proof_submission_def)

lemma proof_submission_registered:
  assumes "stream_key (r_stream_id req) (active_streams s) = Inr k"
  shows "handle_proof_submission L c req now s
           = send_to_client c (Proof_submitted (r_stream_id req))
               (count_event k (state_of (emit_event (proof_submitted_event L c req now) now s)))"
  using assms proof_submitted_event_returns [of L c req now s]
  by (auto simp: handle_proof_submission_def)

lemma proof_submission_counts:
  assumes "stream_key (r_stream_id req) (active_streams s) = Inr k"
  shows "active_streams (handle_proof_submission L c req now s)
           = AList.map_entry k (\<lambda>st. st\<lparr>event_count := event_count st + 1\<rparr>) (active_streams s)"
    and "total_events (metrics (handle_proof_submission L c req now s))
           = total_events (metrics s) + 1"
  by (simp_all add: proof_submission_registered [OF assms] count_event_def emit_event_counts)

text \<open>
  Claim C3 at a failing input.  Client \<^verbatim>\<open>c\<close>, on a working transport, has created a stream
  and subscribed with \<^verbatim>\<open>{}\<close>, and submits a proof to its stream.  The event count becomes 1
  and the event is dispatched, to \<^verbatim>\<open>c\<close> itself among others; serialising the event raises
  (its type is an \<^verbatim>\<open>Enum\<close> member), \<open>send_to_client\<close> treats that as a dead connection and
  deletes \<^verbatim>\<open>c\<close> from the connection table, and the \<^verbatim>\<open>proof_submitted\<close> reply that follows
  is never sent.
\<close>

theorem subscribed_submitter_gets_no_reply:
  "has_open_transport subscribed_creator_state ''c''
   \<and> frames_to subscribed_creator_state ''c''
       = [Connection_established ''c'' 0, Stream_created ''c__'' (PDict []),
          Subscription_confirmed match_all_filter 0]
   \<and> map (\<lambda>(k, st). (k, event_count st))
        (active_streams
           (handle_proof_submission plain_lib ''c'' (submit_proof_request ''c__'') 2
              subscribed_creator_state))
       = [(''c__'', 1)]
   \<and> frames_to
        (handle_proof_submission plain_lib ''c'' (submit_proof_request ''c__'') 2
           subscribed_creator_state) ''c''
       = [Connection_established ''c'' 0, Stream_created ''c__'' (PDict []),
          Subscription_confirmed match_all_filter 0]
   \<and> map_of (connected_clients
        (handle_proof_submission plain_lib ''c'' (submit_proof_request ''c__'') 2
           subscribed_creator_state)) ''c'' = None"
  by (simp add: subscribed_creator_state_def submit_proof_request_def request_of_type_def
        handle_proof_submission_def proof_submitted_event_def emit_event_def count_event_def
        handle_subscription_def subscribe_request_def make_filter_def no_filter_data_def
        elems_def set_subscriptions_def subscriptions_of_def handle_create_stream_def requested_spec_def
        create_stream_request_def new_stream_id_def plain_lib_def stream_created_event_def
        handle_client_connect_def init_server_def send_to_client_def Let_def
        event_matches_filters_def quality_below_def match_all_filter_def frames_to_def
        has_open_transport_def)

end
